theory Spec2Isabelle
  imports Main "HOL-Library.Word"
begin

section \<open>The online store: orders, stock and the message handlers\<close>

text \<open>
  A shallow embedding of the order and product services of the online store
  (\<^verbatim>\<open>internal/services/orders.go\<close>, \<^verbatim>\<open>internal/services/products.go\<close>), of the MQTT
  client and message handlers (\<^verbatim>\<open>internal/mqtt/client.go\<close>, \<^verbatim>\<open>internal/mqtt/handlers.go\<close>)
  and of the HTTP handler that creates orders (\<^verbatim>\<open>internal/handlers/orders.go\<close>).

  Every function takes the state of the world (the database, the messages handed to the
  broker, the lines written to the log) and returns its Go result together with the new
  world. Go's \<^verbatim>\<open>(value, error)\<close> is a sum with the error on the left, a lone
  \<^verbatim>\<open>error\<close> is an option. Timestamps (\<^verbatim>\<open>time.Now()\<close>, \<^verbatim>\<open>created_at\<close>) are left out of
  the structs, rows and events.
\<close>

subsection \<open>Structs of \<^verbatim>\<open>internal/models\<close>\<close>

text \<open>
  Go's \<^verbatim>\<open>int\<close> is a 64-bit machine integer: arithmetic wraps around, and the order is
  the signed one (\<open><s\<close>, \<open>\<le>s\<close>).
\<close>

type_synonym go_int = "64 word"

record Product =
  ID :: go_int
  Name :: string
  Description :: string
  PriceCents :: go_int
  StockQuantity :: go_int

record ProductRequest =
  Name :: string
  Description :: string
  PriceCents :: go_int
  StockQuantity :: go_int

record OrderRequest =
  ProductID :: go_int
  Quantity :: go_int

record OrderResponse =
  ID :: go_int
  ProductID :: go_int
  ProductName :: string
  Quantity :: go_int
  TotalCents :: go_int
  Status :: string

text \<open>
  The payloads handed to \<^verbatim>\<open>Client.Publish\<close>, fields in the order of their struct:
  \<^verbatim>\<open>OrderCreatedEvent{OrderID, UserID, ProductID, Quantity, TotalCents}\<close>,
  \<^verbatim>\<open>LowStockAlert{ProductID, ProductName, CurrentStock, ReorderLevel}\<close>, and the
  anonymous structs \<^verbatim>\<open>{OrderID, Status}\<close> of \<^verbatim>\<open>UpdateOrderStatus\<close> and
  \<^verbatim>\<open>{ProductID, Name}\<close> of \<^verbatim>\<open>UpdateProduct\<close>.
\<close>

datatype payload =
    OrderCreatedEvent go_int go_int go_int go_int go_int
  | LowStockAlert go_int string go_int go_int
  | OrderStatusChanged go_int string
  | ProductUpdated go_int string

subsection \<open>Errors and log lines\<close>

text \<open>
  One constructor for each error text of the services (\<^verbatim>\<open>fmt.Errorf\<close>); the wrapped
  driver error is not kept. The specification's \<open>InsufficientStock\<close> is
  \<open>Insufficient_stock\<close> (with the stock available), its \<open>NotFound\<close> is
  \<open>Order_not_found\<close> or \<open>Product_not_found\<close>.
\<close>

datatype error =
    Failed_to_start_transaction
  | Product_not_found
  | Failed_to_get_product
  | Insufficient_stock go_int
  | Failed_to_create_order
  | Failed_to_get_order_ID
  | Failed_to_update_stock
  | Failed_to_commit_transaction
  | Order_not_found
  | Failed_to_get_order
  | Failed_to_update_order_status
  | Failed_to_get_rows_affected
  | Failed_to_update_product
  | Failed_to_publish_message

text \<open>The lines of \<^verbatim>\<open>log.Printf\<close> and \<^verbatim>\<open>fmt.Printf\<close>, by their format string.\<close>

datatype log_line =
    Published_message_to_topic string payload
  | Failed_to_publish_order_created_event error
  | Failed_to_publish_low_stock_alert error
  | Failed_to_publish_order_status_changed_event error
  | Failed_to_publish_product_updated_event error
  | Received_inventory_update
  | Failed_to_parse_inventory_update
  | Failed_to_update_product_stock error
  | Updated_stock_for_product go_int go_int
  | Received_payment_confirmation
  | Failed_to_parse_payment_confirmation
  | Failed_to_update_order_status_line error
  | Updated_order_status_to_paid go_int

subsection \<open>The database and the world\<close>

text \<open>
  The tables of \<^verbatim>\<open>createTables\<close> (\<^verbatim>\<open>internal/database/connection.go\<close>), keyed by their
  primary key \<^verbatim>\<open>id\<close>, with the columns the services read and write.
\<close>

record products_row =
  name :: string
  description :: string
  price_cents :: go_int
  stock_quantity :: go_int

record orders_row =
  user_id :: go_int
  product_id :: go_int
  quantity :: go_int
  total_cents :: go_int
  status :: string

text \<open>
  The handle \<^verbatim>\<open>*sql.DB\<close>. \<open>clientFoundRows\<close> is the option of that name in the DSN of
  the MySQL driver: when it is off, the rows affected by an \<^verbatim>\<open>UPDATE\<close> are the rows
  whose values changed; when it is on, the rows the \<^verbatim>\<open>WHERE\<close> clause matched. The DSN
  of \<^verbatim>\<open>config.Load\<close> and of \<^verbatim>\<open>docker-compose.yml\<close> is
  \<^verbatim>\<open>storeuser:storepass@tcp(...)/onlinestore?parseTime=true\<close>: the option is off.
  \<open>orders_auto_increment\<close> is the next \<^verbatim>\<open>AUTO_INCREMENT\<close> value of \<^verbatim>\<open>orders.id\<close>;
  \<open>open_tx\<close> counts the transactions begun and neither committed nor rolled back.
\<close>

record sqlDB =
  clientFoundRows :: bool
  products :: "go_int \<rightharpoonup> products_row"
  orders :: "go_int \<rightharpoonup> orders_row"
  orders_auto_increment :: go_int
  open_tx :: nat

text \<open>
  \<open>published\<close> holds every message handed to the broker client by \<^verbatim>\<open>Client.Publish\<close>,
  oldest first, with its topic. \<open>faults\<close> is the fate of the calls to come that return
  an error from outside the program (the SQL driver, the publish token): each such call
  takes the head of the list, \<open>True\<close> meaning that it fails; an empty list means that
  no further call fails. A statement the server rejects because of the schema (a value
  outside an \<^verbatim>\<open>INT\<close> column or the \<^verbatim>\<open>ENUM\<close> of \<^verbatim>\<open>orders.status\<close>, a foreign key) is such
  a failure.
\<close>

record world =
  db :: sqlDB
  published :: "(string \<times> payload) list"
  logged :: "log_line list"
  faults :: "bool list"

definition call_fails :: "world \<Rightarrow> bool" where
  "call_fails w = (case faults w of [] \<Rightarrow> False | b # bs \<Rightarrow> b)"

definition after_call :: "world \<Rightarrow> world" where
  "after_call w = w\<lparr>faults := tl (faults w)\<rparr>"

definition Printf :: "world \<Rightarrow> log_line \<Rightarrow> world" where
  "Printf w line = w\<lparr>logged := logged w @ [line]\<rparr>"

subsection \<open>\<^verbatim>\<open>database/sql\<close>: transactions and the statements of the services\<close>

text \<open>
  A transaction works on its own copy of the tables, which \<open>Commit\<close> installs;
  \<open>Rollback\<close> only closes the transaction.
\<close>

definition Begin :: "world \<Rightarrow> world" where
  "Begin w = w\<lparr>db := (db w)\<lparr>open_tx := open_tx (db w) + 1\<rparr>\<rparr>"

definition Rollback :: "world \<Rightarrow> world" where
  "Rollback w = w\<lparr>db := (db w)\<lparr>open_tx := open_tx (db w) - 1\<rparr>\<rparr>"

definition Commit ::
  "world \<Rightarrow> (go_int \<rightharpoonup> products_row) \<Rightarrow> (go_int \<rightharpoonup> orders_row) \<Rightarrow> world" where
  "Commit w tx_products tx_orders =
     w\<lparr>db := (db w)\<lparr>products := tx_products, orders := tx_orders,
                      open_tx := open_tx (db w) - 1\<rparr>\<rparr>"

text \<open>\<^verbatim>\<open>UPDATE products SET stock_quantity = ? WHERE id = ?\<close>\<close>

definition update_stock_quantity ::
  "(go_int \<rightharpoonup> products_row) \<Rightarrow> go_int \<Rightarrow> go_int \<Rightarrow> (go_int \<rightharpoonup> products_row)" where
  "update_stock_quantity tbl key newStock =
     (case tbl key of
        None \<Rightarrow> tbl
      | Some row \<Rightarrow> tbl(key \<mapsto> row\<lparr>stock_quantity := newStock\<rparr>))"

text \<open>
  \<^verbatim>\<open>UPDATE products SET name = ?, description = ?, price_cents = ?, stock_quantity = ?
  WHERE id = ?\<close>
\<close>

definition update_product ::
  "(go_int \<rightharpoonup> products_row) \<Rightarrow> go_int \<Rightarrow> ProductRequest \<Rightarrow> (go_int \<rightharpoonup> products_row)" where
  "update_product tbl key req =
     (case tbl key of
        None \<Rightarrow> tbl
      | Some row \<Rightarrow>
          tbl(key \<mapsto> \<lparr>name = ProductRequest.Name req,
                       description = ProductRequest.Description req,
                       price_cents = ProductRequest.PriceCents req,
                       stock_quantity = ProductRequest.StockQuantity req\<rparr>))"

text \<open>
  \<^verbatim>\<open>UPDATE orders SET status = ? WHERE id = ?\<close>, with the number of rows affected that
  the driver reports.
\<close>

definition update_status ::
  "(go_int \<rightharpoonup> orders_row) \<Rightarrow> go_int \<Rightarrow> string \<Rightarrow> (go_int \<rightharpoonup> orders_row)" where
  "update_status tbl key st =
     (case tbl key of
        None \<Rightarrow> tbl
      | Some row \<Rightarrow> tbl(key \<mapsto> row\<lparr>status := st\<rparr>))"

definition update_status_RowsAffected :: "sqlDB \<Rightarrow> go_int \<Rightarrow> string \<Rightarrow> go_int" where
  "update_status_RowsAffected d key st =
     (case orders d key of
        None \<Rightarrow> 0
      | Some row \<Rightarrow>
          if clientFoundRows d then 1
          else if status row = st then 0
          else 1)"

text \<open>
  \<^verbatim>\<open>SELECT ... FROM orders o JOIN products p ON o.product_id = p.id
  WHERE o.id = ? AND o.user_id = ?\<close>: the row of the join, if there is one.
\<close>

definition select_order_of_user ::
  "sqlDB \<Rightarrow> go_int \<Rightarrow> go_int \<Rightarrow> (orders_row \<times> products_row) option" where
  "select_order_of_user d orderID userID =
     (case orders d orderID of
        None \<Rightarrow> None
      | Some order \<Rightarrow>
          if user_id order = userID
          then (case products d (product_id order) of
                  None \<Rightarrow> None
                | Some product \<Rightarrow> Some (order, product))
          else None)"

subsection \<open>\<^verbatim>\<open>internal/mqtt/client.go\<close>\<close>

text \<open>
  \<^verbatim>\<open>Client.Publish\<close>: the payload is marshalled (which cannot fail on the structs
  above) and handed to the broker client; the error of the token is returned, and a
  publication without error is logged.
\<close>

definition Client_Publish :: "world \<Rightarrow> string \<Rightarrow> payload \<Rightarrow> error option \<times> world" where
  "Client_Publish w topic pl =
     (let w1 = w\<lparr>published := published w @ [(topic, pl)]\<rparr> in
      if call_fails w1 then (Some Failed_to_publish_message, after_call w1)
      else (None, Printf (after_call w1) (Published_message_to_topic topic pl)))"

subsection \<open>\<^verbatim>\<open>internal/services/products.go\<close>\<close>

definition ProductService_GetProduct :: "world \<Rightarrow> go_int \<Rightarrow> (error + Product) \<times> world" where
  "ProductService_GetProduct w key =
     (if call_fails w then (Inl Failed_to_get_product, after_call w)
      else let w1 = after_call w in
        (case products (db w1) key of
           None \<Rightarrow> (Inl Product_not_found, w1)
         | Some row \<Rightarrow>
             (Inr \<lparr>Product.ID = key, Product.Name = name row,
                   Product.Description = description row,
                   Product.PriceCents = price_cents row,
                   Product.StockQuantity = stock_quantity row\<rparr>, w1)))"

definition ProductService_UpdateProduct ::
  "world \<Rightarrow> go_int \<Rightarrow> ProductRequest \<Rightarrow> (error + Product) \<times> world" where
  "ProductService_UpdateProduct w key req =
     (if call_fails w then (Inl Failed_to_update_product, after_call w)
      else let w1 = after_call w;
               w2 = w1\<lparr>db := (db w1)\<lparr>products := update_product (products (db w1)) key req\<rparr>\<rparr>
        in (case ProductService_GetProduct w2 key of
              (Inl err, w3) \<Rightarrow> (Inl err, w3)
            | (Inr product, w3) \<Rightarrow>
                (case Client_Publish w3 ''product/updated''
                        (ProductUpdated (Product.ID product) (Product.Name product)) of
                   (None, w4) \<Rightarrow> (Inr product, w4)
                 | (Some err, w4) \<Rightarrow>
                     (Inr product, Printf w4 (Failed_to_publish_product_updated_event err)))))"

definition ProductService_UpdateStock :: "world \<Rightarrow> go_int \<Rightarrow> go_int \<Rightarrow> error option \<times> world" where
  "ProductService_UpdateStock w productID newStock =
     (if call_fails w then (Some Failed_to_update_stock, after_call w)
      else let w1 = after_call w;
               w2 = w1\<lparr>db := (db w1)\<lparr>products :=
                        update_stock_quantity (products (db w1)) productID newStock\<rparr>\<rparr>
        in if newStock <s 10
           then (case ProductService_GetProduct w2 productID of
                   (Inl err, w3) \<Rightarrow> (Some err, w3)
                 | (Inr product, w3) \<Rightarrow>
                     (case Client_Publish w3 ''inventory/low_stock''
                             (LowStockAlert productID (Product.Name product) newStock 10) of
                        (None, w4) \<Rightarrow> (None, w4)
                      | (Some err, w4) \<Rightarrow>
                          (None, Printf w4 (Failed_to_publish_low_stock_alert err))))
           else (None, w2))"

subsection \<open>\<^verbatim>\<open>internal/services/orders.go\<close>\<close>

text \<open>
  \<^verbatim>\<open>OrderService.CreateOrder\<close>. The deferred function rolls the transaction back when
  the variable \<^verbatim>\<open>err\<close> is not nil. Every error return but one follows a call that set
  \<^verbatim>\<open>err\<close>; the return for insufficient stock builds its error in the \<^verbatim>\<open>return\<close>
  statement, with \<^verbatim>\<open>err\<close> still nil from the \<^verbatim>\<open>Scan\<close> before it, so there the
  transaction is neither committed nor rolled back. A transaction whose \<^verbatim>\<open>Commit\<close>
  failed has written nothing. The \<^verbatim>\<open>AUTO_INCREMENT\<close> value an \<^verbatim>\<open>INSERT\<close> took is not
  given back by a rollback.
\<close>

definition OrderService_CreateOrder ::
  "world \<Rightarrow> go_int \<Rightarrow> OrderRequest \<Rightarrow> (error + OrderResponse) \<times> world" where
  "OrderService_CreateOrder w userID req =
     (if call_fails w then (Inl Failed_to_start_transaction, after_call w)
      else let w1 = Begin (after_call w) in
      if call_fails w1 then (Inl Failed_to_get_product, Rollback (after_call w1))
      else let w2 = after_call w1 in
      (case products (db w2) (OrderRequest.ProductID req) of
         None \<Rightarrow> (Inl Product_not_found, Rollback w2)
       | Some row \<Rightarrow>
          let product = \<lparr>Product.ID = OrderRequest.ProductID req, Product.Name = name row,
                         Product.Description = [],
                         Product.PriceCents = price_cents row,
                         Product.StockQuantity = stock_quantity row\<rparr>
          in
          if Product.StockQuantity product <s OrderRequest.Quantity req
          then (Inl (Insufficient_stock (Product.StockQuantity product)), w2)
          else let totalCents = Product.PriceCents product * OrderRequest.Quantity req in
          if call_fails w2 then (Inl Failed_to_create_order, Rollback (after_call w2))
          else let w3 = after_call w2;
                   orderID = orders_auto_increment (db w3);
                   w4 = w3\<lparr>db := (db w3)\<lparr>orders_auto_increment := orderID + 1\<rparr>\<rparr>;
                   tx_orders = (orders (db w4))(orderID \<mapsto>
                      \<lparr>user_id = userID, product_id = OrderRequest.ProductID req,
                       quantity = OrderRequest.Quantity req, total_cents = totalCents,
                       status = ''pending''\<rparr>)
          in
          if call_fails w4 then (Inl Failed_to_get_order_ID, Rollback (after_call w4))
          else let w5 = after_call w4;
                   newStock = Product.StockQuantity product - OrderRequest.Quantity req
          in
          if call_fails w5 then (Inl Failed_to_update_stock, Rollback (after_call w5))
          else let w6 = after_call w5;
                   tx_products =
                     update_stock_quantity (products (db w6)) (OrderRequest.ProductID req) newStock
          in
          if call_fails w6 then (Inl Failed_to_commit_transaction, Rollback (after_call w6))
          else let w7 = Commit (after_call w6) tx_products tx_orders;
                   orderResponse =
                     \<lparr>OrderResponse.ID = orderID,
                      OrderResponse.ProductID = OrderRequest.ProductID req,
                      ProductName = Product.Name product,
                      OrderResponse.Quantity = OrderRequest.Quantity req,
                      TotalCents = totalCents,
                      Status = ''pending''\<rparr>;
                   w8 = (case Client_Publish w7 ''order/created''
                                (OrderCreatedEvent orderID userID (OrderRequest.ProductID req)
                                   (OrderRequest.Quantity req) totalCents) of
                           (None, w') \<Rightarrow> w'
                         | (Some err, w') \<Rightarrow>
                             Printf w' (Failed_to_publish_order_created_event err));
                   w9 = (if newStock <s 10
                         then (case Client_Publish w8 ''inventory/low_stock''
                                      (LowStockAlert (OrderRequest.ProductID req)
                                         (Product.Name product) newStock 10) of
                                 (None, w') \<Rightarrow> w'
                               | (Some err, w') \<Rightarrow>
                                   Printf w' (Failed_to_publish_low_stock_alert err))
                         else w8)
          in (Inr orderResponse, w9)))"

definition OrderService_GetOrder ::
  "world \<Rightarrow> go_int \<Rightarrow> go_int \<Rightarrow> (error + OrderResponse) \<times> world" where
  "OrderService_GetOrder w orderID userID =
     (if call_fails w then (Inl Failed_to_get_order, after_call w)
      else let w1 = after_call w in
        (case select_order_of_user (db w1) orderID userID of
           None \<Rightarrow> (Inl Order_not_found, w1)
         | Some (order, product) \<Rightarrow>
             (Inr \<lparr>OrderResponse.ID = orderID,
                   OrderResponse.ProductID = product_id order,
                   ProductName = name product,
                   OrderResponse.Quantity = quantity order,
                   TotalCents = total_cents order,
                   Status = status order\<rparr>, w1)))"

definition OrderService_UpdateOrderStatus ::
  "world \<Rightarrow> go_int \<Rightarrow> string \<Rightarrow> error option \<times> world" where
  "OrderService_UpdateOrderStatus w orderID st =
     (if call_fails w then (Some Failed_to_update_order_status, after_call w)
      else let w1 = after_call w;
               rowsAffected = update_status_RowsAffected (db w1) orderID st;
               w2 = w1\<lparr>db := (db w1)\<lparr>orders := update_status (orders (db w1)) orderID st\<rparr>\<rparr>
      in
      if call_fails w2 then (Some Failed_to_get_rows_affected, after_call w2)
      else let w3 = after_call w2 in
      if rowsAffected = 0 then (Some Order_not_found, w3)
      else (case Client_Publish w3 ''order/status_changed'' (OrderStatusChanged orderID st) of
              (None, w4) \<Rightarrow> (None, w4)
            | (Some err, w4) \<Rightarrow>
                (None, Printf w4 (Failed_to_publish_order_status_changed_event err))))"

subsection \<open>\<^verbatim>\<open>internal/mqtt/handlers.go\<close>\<close>

text \<open>
  The structs the handlers decode a message into. A handler is given the outcome of
  \<^verbatim>\<open>json.Unmarshal\<close> on the payload: \<open>None\<close> when it returned an error. The line
  that logs the message received does not keep its bytes.
\<close>

record inventory_update =
  ProductID :: go_int
  NewStock :: go_int

record payment_confirmation =
  OrderID :: go_int
  Status :: string

definition Handlers_handleInventoryUpdate :: "world \<Rightarrow> inventory_update option \<Rightarrow> world" where
  "Handlers_handleInventoryUpdate w msg =
     (let w1 = Printf w Received_inventory_update in
      case msg of
        None \<Rightarrow> Printf w1 Failed_to_parse_inventory_update
      | Some upd \<Rightarrow>
          (case ProductService_UpdateStock w1 (inventory_update.ProductID upd) (NewStock upd) of
             (Some err, w2) \<Rightarrow> Printf w2 (Failed_to_update_product_stock err)
           | (None, w2) \<Rightarrow>
               Printf w2 (Updated_stock_for_product (inventory_update.ProductID upd)
                            (NewStock upd))))"

definition Handlers_handlePaymentConfirmed ::
  "world \<Rightarrow> payment_confirmation option \<Rightarrow> world" where
  "Handlers_handlePaymentConfirmed w msg =
     (let w1 = Printf w Received_payment_confirmation in
      case msg of
        None \<Rightarrow> Printf w1 Failed_to_parse_payment_confirmation
      | Some payment \<Rightarrow>
          (case OrderService_UpdateOrderStatus w1 (OrderID payment) ''paid'' of
             (Some err, w2) \<Rightarrow> Printf w2 (Failed_to_update_order_status_line err)
           | (None, w2) \<Rightarrow> Printf w2 (Updated_order_status_to_paid (OrderID payment))))"

subsection \<open>\<^verbatim>\<open>internal/handlers/orders.go\<close>\<close>

text \<open>
  What \<^verbatim>\<open>OrderHandler.CreateOrder\<close> reads from its \<^verbatim>\<open>*gin.Context\<close>: the value the
  authentication middleware stored under \<^verbatim>\<open>"user_id"\<close> (\<open>None\<close> when it is absent or
  not an \<^verbatim>\<open>int\<close>), and the request body decoded as JSON into \<^verbatim>\<open>models.OrderRequest\<close>
  (\<open>None\<close> when the decoding fails).
\<close>

record gin_Context =
  user_id_value :: "go_int option"
  json_body :: "OrderRequest option"

text \<open>
  The binding tags of \<^verbatim>\<open>models.OrderRequest\<close>, which \<^verbatim>\<open>ShouldBindJSON\<close> checks after
  decoding: \<^verbatim>\<open>ProductID\<close> is \<^verbatim>\<open>binding:"required"\<close>, \<^verbatim>\<open>Quantity\<close> is
  \<^verbatim>\<open>binding:"required,min=1"\<close>. \<^verbatim>\<open>required\<close> refuses the zero value of the field,
  \<^verbatim>\<open>min=1\<close> a number below 1.
\<close>

definition binding_OrderRequest :: "OrderRequest \<Rightarrow> bool" where
  "binding_OrderRequest req =
     (if OrderRequest.ProductID req = 0 then False
      else if OrderRequest.Quantity req = 0 then False
      else 1 \<le>s OrderRequest.Quantity req)"

definition ShouldBindJSON :: "gin_Context \<Rightarrow> OrderRequest option" where
  "ShouldBindJSON c =
     (case json_body c of
        None \<Rightarrow> None
      | Some req \<Rightarrow> if binding_OrderRequest req then Some req else None)"

definition getUserIDFromContext :: "gin_Context \<Rightarrow> go_int option" where
  "getUserIDFromContext c = user_id_value c"

text \<open>The bodies of \<^verbatim>\<open>c.JSON\<close>: \<^verbatim>\<open>gin.H{"error": ...}\<close> or the order.\<close>

datatype response_body =
    User_not_authenticated
  | Binding_error
  | Service_error error
  | Order_body OrderResponse

definition StatusCreated :: nat where "StatusCreated = 201"
definition StatusBadRequest :: nat where "StatusBadRequest = 400"
definition StatusUnauthorized :: nat where "StatusUnauthorized = 401"

definition OrderHandler_CreateOrder ::
  "world \<Rightarrow> gin_Context \<Rightarrow> (nat \<times> response_body) \<times> world" where
  "OrderHandler_CreateOrder w c =
     (case getUserIDFromContext c of
        None \<Rightarrow> ((StatusUnauthorized, User_not_authenticated), w)
      | Some userID \<Rightarrow>
          (case ShouldBindJSON c of
             None \<Rightarrow> ((StatusBadRequest, Binding_error), w)
           | Some req \<Rightarrow>
               (case OrderService_CreateOrder w userID req of
                  (Inl err, w1) \<Rightarrow> ((StatusBadRequest, Service_error err), w1)
                | (Inr order, w1) \<Rightarrow> ((StatusCreated, Order_body order), w1))))"

subsection \<open>Sequences of calls and sample data\<close>

text \<open>A sequence of calls of \<^verbatim>\<open>ProductService.UpdateProduct\<close>, one after the other.\<close>

fun UpdateProduct_calls :: "world \<Rightarrow> (go_int \<times> ProductRequest) list \<Rightarrow> world" where
  "UpdateProduct_calls w [] = w"
| "UpdateProduct_calls w ((key, req) # calls) =
     UpdateProduct_calls (snd (ProductService_UpdateProduct w key req)) calls"

text \<open>
  The products of \<^verbatim>\<open>insertSampleData\<close>, with the stock of the first one as a
  parameter (50 in the source), in a database opened with the DSN of \<^verbatim>\<open>config.Load\<close>.
\<close>

definition sample_products :: "go_int \<Rightarrow> (go_int \<rightharpoonup> products_row)" where
  "sample_products stock =
     [1 \<mapsto> \<lparr>name = ''Go Programming Book'',
             description = ''Learn Go programming from scratch'',
             price_cents = 2999, stock_quantity = stock\<rparr>,
      2 \<mapsto> \<lparr>name = ''MQTT Sensor Kit'',
             description = ''IoT sensor kit with MQTT support'',
             price_cents = 4999, stock_quantity = 25\<rparr>,
      3 \<mapsto> \<lparr>name = ''Docker T-Shirt'',
             description = ''Comfortable cotton t-shirt with Docker logo'',
             price_cents = 1999, stock_quantity = 100\<rparr>,
      4 \<mapsto> \<lparr>name = ''Wireless Mouse'',
             description = ''Ergonomic wireless mouse for developers'',
             price_cents = 3499, stock_quantity = 75\<rparr>]"

definition store :: "go_int \<Rightarrow> world" where
  "store stock =
     \<lparr>db = \<lparr>clientFoundRows = False, products = sample_products stock,
            orders = Map.empty, orders_auto_increment = 1, open_tx = 0\<rparr>,
      published = [], logged = [], faults = []\<rparr>"

text \<open>
  The store after user 7 has ordered two books (order 1), with the order in a given
  status.
\<close>

definition store_with_order :: "string \<Rightarrow> world" where
  "store_with_order st =
     \<lparr>db = \<lparr>clientFoundRows = False, products = sample_products 48,
            orders = [1 \<mapsto> \<lparr>user_id = 7, product_id = 1, quantity = 2,
                            total_cents = 5998, status = st\<rparr>],
            orders_auto_increment = 2, open_tx = 0\<rparr>,
      published = [], logged = [], faults = []\<rparr>"

section \<open>Properties\<close>

subsection \<open>The parts of the world each step touches\<close>

lemma after_call_fields:
  "db (after_call w) = db w" "published (after_call w) = published w"
  "logged (after_call w) = logged w" "faults (after_call w) = tl (faults w)"
  by (simp_all add: after_call_def)

lemma Printf_fields:
  "db (Printf w l) = db w" "published (Printf w l) = published w"
  "logged (Printf w l) = logged w @ [l]" "faults (Printf w l) = faults w"
  by (simp_all add: Printf_def)

lemma Begin_fields:
  "products (db (Begin w)) = products (db w)" "orders (db (Begin w)) = orders (db w)"
  "orders_auto_increment (db (Begin w)) = orders_auto_increment (db w)"
  "clientFoundRows (db (Begin w)) = clientFoundRows (db w)"
  "open_tx (db (Begin w)) = open_tx (db w) + 1"
  "published (Begin w) = published w" "logged (Begin w) = logged w"
  "faults (Begin w) = faults w"
  by (simp_all add: Begin_def)

lemma Rollback_fields:
  "products (db (Rollback w)) = products (db w)" "orders (db (Rollback w)) = orders (db w)"
  "orders_auto_increment (db (Rollback w)) = orders_auto_increment (db w)"
  "clientFoundRows (db (Rollback w)) = clientFoundRows (db w)"
  "open_tx (db (Rollback w)) = open_tx (db w) - 1"
  "published (Rollback w) = published w" "logged (Rollback w) = logged w"
  "faults (Rollback w) = faults w"
  by (simp_all add: Rollback_def)

lemma Commit_fields:
  "products (db (Commit w ps os)) = ps" "orders (db (Commit w ps os)) = os"
  "orders_auto_increment (db (Commit w ps os)) = orders_auto_increment (db w)"
  "clientFoundRows (db (Commit w ps os)) = clientFoundRows (db w)"
  "open_tx (db (Commit w ps os)) = open_tx (db w) - 1"
  "published (Commit w ps os) = published w" "logged (Commit w ps os) = logged w"
  "faults (Commit w ps os) = faults w"
  by (simp_all add: Commit_def)

lemmas world_fields =
  after_call_fields Printf_fields Begin_fields Rollback_fields Commit_fields

lemma call_fails_simps:
  "call_fails (Begin w) = call_fails w" "call_fails (Rollback w) = call_fails w"
  "call_fails (w\<lparr>db := d\<rparr>) = call_fails w" "call_fails (Printf w l) = call_fails w"
  "call_fails (w\<lparr>published := p\<rparr>) = call_fails w"
  "call_fails (Commit w ps os) = call_fails w"
  by (simp_all add: call_fails_def Begin_def Rollback_def Printf_def Commit_def)

lemma Client_Publish_fields:
  "db (snd (Client_Publish w topic pl)) = db w"
  "published (snd (Client_Publish w topic pl)) = published w @ [(topic, pl)]"
  "faults (snd (Client_Publish w topic pl)) = tl (faults w)"
  by (simp_all add: Client_Publish_def Let_def world_fields)

text \<open>The definitions a run on concrete data unfolds.\<close>

lemmas eval_defs =
  OrderService_CreateOrder_def Client_Publish_def update_stock_quantity_def
  call_fails_def after_call_def Printf_def Begin_def Rollback_def Commit_def
  store_def sample_products_def Let_def word_sless_alt word_sle_eq

subsection \<open>What a successful \<^verbatim>\<open>CreateOrder\<close> has done\<close>

text \<open>
  When \<^verbatim>\<open>OrderService.CreateOrder\<close> returns an order, the product existed with enough
  stock, the order row was inserted under the next \<^verbatim>\<open>AUTO_INCREMENT\<close> value with the
  total computed from the price read in the transaction, the stock of the product was
  lowered by the quantity, and \<^verbatim>\<open>order/created\<close> was published, followed by
  \<^verbatim>\<open>inventory/low_stock\<close> when the new stock is below 10.
\<close>

lemma CreateOrder_success:
  assumes "OrderService_CreateOrder w userID req = (Inr resp, w')"
  shows "\<exists>row. products (db w) (OrderRequest.ProductID req) = Some row \<and>
     \<not> stock_quantity row <s OrderRequest.Quantity req \<and>
     resp = \<lparr>OrderResponse.ID = orders_auto_increment (db w),
             OrderResponse.ProductID = OrderRequest.ProductID req,
             OrderResponse.ProductName = name row,
             OrderResponse.Quantity = OrderRequest.Quantity req,
             OrderResponse.TotalCents = price_cents row * OrderRequest.Quantity req,
             OrderResponse.Status = ''pending''\<rparr> \<and>
     orders (db w') = (orders (db w))(orders_auto_increment (db w) \<mapsto>
         \<lparr>user_id = userID, product_id = OrderRequest.ProductID req,
          quantity = OrderRequest.Quantity req,
          total_cents = price_cents row * OrderRequest.Quantity req,
          status = ''pending''\<rparr>) \<and>
     products (db w') = (products (db w))(OrderRequest.ProductID req \<mapsto>
         row\<lparr>stock_quantity := stock_quantity row - OrderRequest.Quantity req\<rparr>) \<and>
     published w' = published w @
       (''order/created'', OrderCreatedEvent (orders_auto_increment (db w)) userID
           (OrderRequest.ProductID req) (OrderRequest.Quantity req)
           (price_cents row * OrderRequest.Quantity req)) #
       (if stock_quantity row - OrderRequest.Quantity req <s 10
        then [(''inventory/low_stock'', LowStockAlert (OrderRequest.ProductID req) (name row)
                 (stock_quantity row - OrderRequest.Quantity req) 10)]
        else [])"
proof (cases "products (db w) (OrderRequest.ProductID req)")
  case None
  with assms show ?thesis
    by (simp add: OrderService_CreateOrder_def Let_def world_fields split: if_split_asm)
next
  case (Some row)
  with assms show ?thesis
    apply (simp add: OrderService_CreateOrder_def Let_def world_fields call_fails_simps
        Client_Publish_fields update_stock_quantity_def split: if_split_asm)
    apply (auto simp: Client_Publish_def Let_def world_fields
        split: if_split_asm prod.splits option.splits)
    done
qed

subsection \<open>Events after a commit\<close>

text \<open>
  Claim C7. After a successful \<^verbatim>\<open>CreateOrder\<close> the messages published are those
  published before, then \<^verbatim>\<open>order/created\<close> for the new order, then
  \<^verbatim>\<open>inventory/low_stock\<close> if and only if the stock after the reservation (the stock
  read minus the quantity, which is the stock now stored for the product) is below 10.
  This holds whatever the fate of the two publications: one that fails is logged and
  changes nothing else.
\<close>

theorem C7_events_after_commit:
  assumes "OrderService_CreateOrder w userID req = (Inr resp, w')"
  shows "\<exists>row. products (db w) (OrderRequest.ProductID req) = Some row \<and>
     published w' = published w @
       (''order/created'', OrderCreatedEvent (OrderResponse.ID resp) userID
           (OrderRequest.ProductID req) (OrderRequest.Quantity req)
           (OrderResponse.TotalCents resp)) #
       (if stock_quantity row - OrderRequest.Quantity req <s 10
        then [(''inventory/low_stock'', LowStockAlert (OrderRequest.ProductID req) (name row)
                 (stock_quantity row - OrderRequest.Quantity req) 10)]
        else []) \<and>
     map_option stock_quantity (products (db w') (OrderRequest.ProductID req)) =
       Some (stock_quantity row - OrderRequest.Quantity req)"
proof -
  from CreateOrder_success [OF assms] obtain row where
    row: "products (db w) (OrderRequest.ProductID req) = Some row"
    and resp: "resp = \<lparr>OrderResponse.ID = orders_auto_increment (db w),
             OrderResponse.ProductID = OrderRequest.ProductID req,
             OrderResponse.ProductName = name row,
             OrderResponse.Quantity = OrderRequest.Quantity req,
             OrderResponse.TotalCents = price_cents row * OrderRequest.Quantity req,
             OrderResponse.Status = ''pending''\<rparr>"
    and prods: "products (db w') = (products (db w))(OrderRequest.ProductID req \<mapsto>
         row\<lparr>stock_quantity := stock_quantity row - OrderRequest.Quantity req\<rparr>)"
    and pub: "published w' = published w @
       (''order/created'', OrderCreatedEvent (orders_auto_increment (db w)) userID
           (OrderRequest.ProductID req) (OrderRequest.Quantity req)
           (price_cents row * OrderRequest.Quantity req)) #
       (if stock_quantity row - OrderRequest.Quantity req <s 10
        then [(''inventory/low_stock'', LowStockAlert (OrderRequest.ProductID req) (name row)
                 (stock_quantity row - OrderRequest.Quantity req) 10)]
        else [])"
    by blast
  from row resp prods pub show ?thesis by simp
qed

text \<open>
  The theorem at scenarios B and A of the specification: stock 11 and quantity 2, hence
  new stock 9 and both events; stock 50 and quantity 2, hence new stock 48 and
  \<^verbatim>\<open>order/created\<close> alone.
\<close>

theorem C7_scenarios_B_and_A:
  "published (snd (OrderService_CreateOrder (store 11) 7
                     \<lparr>OrderRequest.ProductID = 1, Quantity = 2\<rparr>)) =
     [(''order/created'', OrderCreatedEvent 1 7 1 2 5998),
      (''inventory/low_stock'', LowStockAlert 1 ''Go Programming Book'' 9 10)] \<and>
   map_option stock_quantity
     (products (db (snd (OrderService_CreateOrder (store 11) 7
                           \<lparr>OrderRequest.ProductID = 1, Quantity = 2\<rparr>))) 1) = Some 9 \<and>
   published (snd (OrderService_CreateOrder (store 50) 7
                     \<lparr>OrderRequest.ProductID = 1, Quantity = 2\<rparr>)) =
     [(''order/created'', OrderCreatedEvent 1 7 1 2 5998)] \<and>
   map_option stock_quantity
     (products (db (snd (OrderService_CreateOrder (store 50) 7
                           \<lparr>OrderRequest.ProductID = 1, Quantity = 2\<rparr>))) 1) = Some 48"
proof -
  let ?req = "\<lparr>OrderRequest.ProductID = 1, Quantity = 2\<rparr>"
  let ?resp = "\<lparr>OrderResponse.ID = 1, OrderResponse.ProductID = 1,
                 OrderResponse.ProductName = ''Go Programming Book'',
                 OrderResponse.Quantity = 2, OrderResponse.TotalCents = 5998,
                 OrderResponse.Status = ''pending''\<rparr>"
  have "fst (OrderService_CreateOrder (store 11) 7 ?req) = Inr ?resp"
    by (simp add: eval_defs)
  then have hB: "OrderService_CreateOrder (store 11) 7 ?req =
      (Inr ?resp, snd (OrderService_CreateOrder (store 11) 7 ?req))"
    by (metis prod.collapse)
  have "fst (OrderService_CreateOrder (store 50) 7 ?req) = Inr ?resp"
    by (simp add: eval_defs)
  then have hA: "OrderService_CreateOrder (store 50) 7 ?req =
      (Inr ?resp, snd (OrderService_CreateOrder (store 50) 7 ?req))"
    by (metis prod.collapse)
  have p: "products (db (store stock)) 1 =
      Some \<lparr>name = ''Go Programming Book'',
            description = ''Learn Go programming from scratch'',
            price_cents = 2999, stock_quantity = stock\<rparr>" for stock
    by (simp add: store_def sample_products_def)
  from C7_events_after_commit [OF hB] C7_events_after_commit [OF hA] p show ?thesis
    by (auto simp: store_def word_sless_alt)
qed

subsection \<open>Insufficient stock\<close>

text \<open>
  When \<^verbatim>\<open>OrderService.CreateOrder\<close> returns the error for insufficient stock, the
  product was found with less stock than the quantity asked, and the world differs from
  the one before only by the two driver calls made (\<^verbatim>\<open>Begin\<close>, \<^verbatim>\<open>QueryRow\<close>) and by
  the transaction begun.
\<close>

lemma CreateOrder_insufficient_stock:
  assumes "OrderService_CreateOrder w userID req = (Inl (Insufficient_stock n), w')"
  shows "(\<exists>row. products (db w) (OrderRequest.ProductID req) = Some row \<and>
            stock_quantity row <s OrderRequest.Quantity req \<and> n = stock_quantity row) \<and>
     w' = Begin (after_call (after_call w))"
proof (cases "products (db w) (OrderRequest.ProductID req)")
  case None
  with assms show ?thesis
    by (simp add: OrderService_CreateOrder_def Let_def world_fields split: if_split_asm)
next
  case (Some row)
  with assms show ?thesis
    apply (simp add: OrderService_CreateOrder_def Let_def world_fields call_fails_simps
        split: if_split_asm)
    apply (auto simp: Client_Publish_def Let_def world_fields after_call_def Begin_def
        split: if_split_asm prod.splits option.splits)
    done
qed

text \<open>
  Conversely, when the product exists with less stock than the quantity asked and the
  first two driver calls do not fail, that error is what \<^verbatim>\<open>CreateOrder\<close> returns.
\<close>

lemma CreateOrder_fails_when_stock_short:
  assumes "products (db w) (OrderRequest.ProductID req) = Some row"
    and "stock_quantity row <s OrderRequest.Quantity req"
    and "\<not> call_fails w" and "\<not> call_fails (after_call w)"
  shows "fst (OrderService_CreateOrder w userID req) = Inl (Insufficient_stock (stock_quantity row))"
  using assms
  by (simp add: OrderService_CreateOrder_def Let_def world_fields call_fails_simps)

text \<open>
  On that path no row is written, no message is published and nothing is logged.
\<close>

lemma CreateOrder_insufficient_stock_tables:
  assumes "OrderService_CreateOrder w userID req = (Inl (Insufficient_stock n), w')"
  shows "orders (db w') = orders (db w) \<and>
     orders_auto_increment (db w') = orders_auto_increment (db w) \<and>
     products (db w') = products (db w) \<and>
     published w' = published w \<and>
     logged w' = logged w"
  using CreateOrder_insufficient_stock [OF assms] by (simp add: world_fields)

text \<open>
  But the transaction is left open: the deferred rollback tests \<^verbatim>\<open>err\<close>, which is
  nil there, so the connection the transaction holds is not given back to the pool.
\<close>

lemma CreateOrder_insufficient_stock_open_tx:
  assumes "OrderService_CreateOrder w userID req = (Inl (Insufficient_stock n), w')"
  shows "open_tx (db w') = open_tx (db w) + 1"
  using CreateOrder_insufficient_stock [OF assms] by (simp add: world_fields)

text \<open>
  Every other error return of \<^verbatim>\<open>CreateOrder\<close> leaves no transaction open: either none
  was begun, or the deferred function rolled it back.
\<close>

lemma CreateOrder_other_errors_close_tx:
  assumes "OrderService_CreateOrder w userID req = (Inl e, w')"
    and "\<forall>n. e \<noteq> Insufficient_stock n"
  shows "open_tx (db w') = open_tx (db w)"
proof (cases "products (db w) (OrderRequest.ProductID req)")
  case None
  with assms show ?thesis
    by (auto simp: OrderService_CreateOrder_def Let_def world_fields split: if_split_asm)
next
  case (Some r)
  with assms show ?thesis
    apply (simp add: OrderService_CreateOrder_def Let_def world_fields call_fails_simps
        split: if_split_asm)
    apply (auto simp: world_fields)
    done
qed

text \<open>
  Claim C5 fails on the code. At scenario C of the specification (stock 0, quantity 1)
  \<^verbatim>\<open>CreateOrder\<close> returns the error for insufficient stock, creates no order, leaves
  the products as they are and publishes nothing, but it does not abort its
  transaction: no transaction was open before the call and one is open after it, against
  the comment of the source that the transaction is rolled back if something goes
  wrong. The error return for a product that does not exist, in the same store, leaves
  none open.
\<close>

theorem C5_transaction_left_open:
  "fst (OrderService_CreateOrder (store 0) 7 \<lparr>OrderRequest.ProductID = 1, Quantity = 1\<rparr>) =
     Inl (Insufficient_stock 0) \<and>
   open_tx (db (store 0)) = 0 \<and>
   open_tx (db (snd (OrderService_CreateOrder (store 0) 7
                       \<lparr>OrderRequest.ProductID = 1, Quantity = 1\<rparr>))) = 1 \<and>
   orders (db (snd (OrderService_CreateOrder (store 0) 7
                      \<lparr>OrderRequest.ProductID = 1, Quantity = 1\<rparr>))) = Map.empty \<and>
   products (db (snd (OrderService_CreateOrder (store 0) 7
                      \<lparr>OrderRequest.ProductID = 1, Quantity = 1\<rparr>))) = sample_products 0 \<and>
   published (snd (OrderService_CreateOrder (store 0) 7
                      \<lparr>OrderRequest.ProductID = 1, Quantity = 1\<rparr>)) = [] \<and>
   fst (OrderService_CreateOrder (store 0) 7 \<lparr>OrderRequest.ProductID = 9, Quantity = 1\<rparr>) =
     Inl Product_not_found \<and>
   open_tx (db (snd (OrderService_CreateOrder (store 0) 7
                       \<lparr>OrderRequest.ProductID = 9, Quantity = 1\<rparr>))) = 0"
  by (simp add: eval_defs)

subsection \<open>The total of an order\<close>

text \<open>A 64-bit product is the product of the signed values when that fits in 64 bits.\<close>

lemma sint_mult_exact:
  fixes a b :: go_int
  assumes "- (2 ^ 63) \<le> sint a * sint b" and "sint a * sint b < 2 ^ 63"
  shows "sint (a * b) = sint a * sint b"
  using assms by (simp add: sint_word_ariths signed_take_bit_int_eq_self)

text \<open>\<^verbatim>\<open>ProductService.UpdateProduct\<close> writes to the table of products only.\<close>

lemma UpdateProduct_orders:
  "orders (db (snd (ProductService_UpdateProduct w key req))) = orders (db w)"
  by (simp add: ProductService_UpdateProduct_def ProductService_GetProduct_def Let_def
      world_fields Client_Publish_def split: option.splits prod.splits sum.splits)

lemma UpdateProduct_calls_orders:
  "orders (db (UpdateProduct_calls w calls)) = orders (db w)"
  by (induction w calls rule: UpdateProduct_calls.induct) (simp_all add: UpdateProduct_orders)

text \<open>
  Claim C6. For every order created, the total stored with the order (and returned) is
  the unit price of the product read at creation times the quantity ordered, in Go's
  64-bit arithmetic, which is the exact product of the two numbers whenever that fits in
  64 bits; and the order row, with its total, is the same after any sequence of later
  calls of \<^verbatim>\<open>UpdateProduct\<close>, whatever price they set.
\<close>

theorem C6_total_frozen:
  assumes "OrderService_CreateOrder w userID req = (Inr resp, w')"
  shows "\<exists>row order. products (db w) (OrderRequest.ProductID req) = Some row \<and>
     orders (db w') (OrderResponse.ID resp) = Some order \<and>
     quantity order = OrderRequest.Quantity req \<and>
     total_cents order = price_cents row * quantity order \<and>
     OrderResponse.TotalCents resp = total_cents order \<and>
     (- (2 ^ 63) \<le> sint (price_cents row) * sint (quantity order) \<and>
      sint (price_cents row) * sint (quantity order) < 2 ^ 63 \<longrightarrow>
        sint (total_cents order) = sint (price_cents row) * sint (quantity order)) \<and>
     (\<forall>calls. orders (db (UpdateProduct_calls w' calls)) (OrderResponse.ID resp) = Some order)"
proof -
  from CreateOrder_success [OF assms] obtain row where
    row: "products (db w) (OrderRequest.ProductID req) = Some row"
    and resp: "resp = \<lparr>OrderResponse.ID = orders_auto_increment (db w),
             OrderResponse.ProductID = OrderRequest.ProductID req,
             OrderResponse.ProductName = name row,
             OrderResponse.Quantity = OrderRequest.Quantity req,
             OrderResponse.TotalCents = price_cents row * OrderRequest.Quantity req,
             OrderResponse.Status = ''pending''\<rparr>"
    and ords: "orders (db w') = (orders (db w))(orders_auto_increment (db w) \<mapsto>
         \<lparr>user_id = userID, product_id = OrderRequest.ProductID req,
          quantity = OrderRequest.Quantity req,
          total_cents = price_cents row * OrderRequest.Quantity req,
          status = ''pending''\<rparr>)"
    by blast
  from row resp ords show ?thesis
    by (simp add: UpdateProduct_calls_orders sint_mult_exact)
qed

text \<open>
  The theorem at scenario A of the specification (price 2999, stock 50, quantity 2),
  followed by a change of the price to 3999.
\<close>

theorem C6_scenario_A:
  "fst (OrderService_CreateOrder (store 50) 7 \<lparr>OrderRequest.ProductID = 1, Quantity = 2\<rparr>) =
     Inr \<lparr>OrderResponse.ID = 1, OrderResponse.ProductID = 1,
          OrderResponse.ProductName = ''Go Programming Book'',
          OrderResponse.Quantity = 2, OrderResponse.TotalCents = 5998,
          OrderResponse.Status = ''pending''\<rparr> \<and>
   sint (5998 :: go_int) = sint (2999 :: go_int) * sint (2 :: go_int) \<and>
   orders (db (UpdateProduct_calls
                 (snd (OrderService_CreateOrder (store 50) 7
                         \<lparr>OrderRequest.ProductID = 1, Quantity = 2\<rparr>))
                 [(1, \<lparr>ProductRequest.Name = ''Go Programming Book'',
                       ProductRequest.Description = ''Second edition'',
                       ProductRequest.PriceCents = 3999,
                       ProductRequest.StockQuantity = 48\<rparr>)])) 1 =
     Some \<lparr>user_id = 7, product_id = 1, quantity = 2, total_cents = 5998,
           status = ''pending''\<rparr> \<and>
   map_option price_cents
     (products (db (UpdateProduct_calls
                 (snd (OrderService_CreateOrder (store 50) 7
                         \<lparr>OrderRequest.ProductID = 1, Quantity = 2\<rparr>))
                 [(1, \<lparr>ProductRequest.Name = ''Go Programming Book'',
                       ProductRequest.Description = ''Second edition'',
                       ProductRequest.PriceCents = 3999,
                       ProductRequest.StockQuantity = 48\<rparr>)])) 1) = Some 3999"
proof -
  let ?req = "\<lparr>OrderRequest.ProductID = 1, Quantity = 2\<rparr>"
  let ?resp = "\<lparr>OrderResponse.ID = 1, OrderResponse.ProductID = 1,
                 OrderResponse.ProductName = ''Go Programming Book'',
                 OrderResponse.Quantity = 2, OrderResponse.TotalCents = 5998,
                 OrderResponse.Status = ''pending''\<rparr>"
  let ?w' = "snd (OrderService_CreateOrder (store 50) 7 ?req)"
  let ?calls = "[(1, \<lparr>ProductRequest.Name = ''Go Programming Book'',
                       ProductRequest.Description = ''Second edition'',
                       ProductRequest.PriceCents = 3999,
                       ProductRequest.StockQuantity = 48\<rparr>)]"
  have r: "fst (OrderService_CreateOrder (store 50) 7 ?req) = Inr ?resp"
    by (simp add: eval_defs)
  then have h: "OrderService_CreateOrder (store 50) 7 ?req = (Inr ?resp, ?w')"
    by (metis prod.collapse)
  have p: "products (db (store 50)) 1 =
      Some \<lparr>name = ''Go Programming Book'',
            description = ''Learn Go programming from scratch'',
            price_cents = 2999, stock_quantity = 50\<rparr>"
    by (simp add: store_def sample_products_def)
  from C6_total_frozen [OF h] p obtain order where
    o1: "orders (db ?w') 1 = Some order"
    and o2: "quantity order = 2" and o3: "total_cents order = 2999 * quantity order"
    and o4: "\<forall>calls. orders (db (UpdateProduct_calls ?w' calls)) 1 = Some order"
    by auto
  have o5: "orders (db ?w') 1 =
      Some \<lparr>user_id = 7, product_id = 1, quantity = 2, total_cents = 5998,
            status = ''pending''\<rparr>"
    by (simp add: eval_defs)
  have pr: "map_option price_cents (products (db (UpdateProduct_calls ?w' ?calls)) 1) = Some 3999"
    by (simp add: eval_defs ProductService_UpdateProduct_def ProductService_GetProduct_def
        update_product_def)
  from o1 o5 o4 [rule_format, of ?calls] r pr show ?thesis by simp
qed

subsection \<open>Reading an order\<close>

text \<open>\<^verbatim>\<open>OrderService.GetOrder\<close> changes nothing: it makes one driver call.\<close>

lemma GetOrder_world: "snd (OrderService_GetOrder w orderID userID) = after_call w"
  by (simp add: OrderService_GetOrder_def Let_def split: option.splits prod.splits)

lemma select_order_of_user_Some:
  "select_order_of_user d orderID userID = Some (order, product) \<Longrightarrow>
     orders d orderID = Some order \<and> user_id order = userID \<and>
     products d (product_id order) = Some product"
  by (simp add: select_order_of_user_def split: option.splits if_split_asm)

lemma select_order_of_user_other:
  "orders d orderID = Some order \<Longrightarrow> user_id order \<noteq> userID \<Longrightarrow>
     select_order_of_user d orderID userID = None"
  by (simp add: select_order_of_user_def)

lemma select_order_of_user_absent:
  "orders d orderID = None \<Longrightarrow> select_order_of_user d orderID userID = None"
  by (simp add: select_order_of_user_def)

text \<open>
  Claim C9. \<^verbatim>\<open>GetOrder\<close> returns an order only if the order with that id belongs to
  the requesting user, and then it is that order. When the order belongs to another
  user, the result is the one obtained in a world where no order has that id (with the
  same fate of the driver call): the error for an order not found when the query runs,
  and no other effect in either world.
\<close>

theorem C9_GetOrder_scoped:
  "(\<forall>resp w'. OrderService_GetOrder w orderID userID = (Inr resp, w') \<longrightarrow>
      (\<exists>order. orders (db w) orderID = Some order \<and> user_id order = userID \<and>
         OrderResponse.ID resp = orderID \<and>
         OrderResponse.ProductID resp = product_id order \<and>
         OrderResponse.Quantity resp = quantity order \<and>
         OrderResponse.TotalCents resp = total_cents order \<and>
         OrderResponse.Status resp = status order)) \<and>
   (\<forall>order w2. orders (db w) orderID = Some order \<and> user_id order \<noteq> userID \<and>
        orders (db w2) orderID = None \<and> faults w2 = faults w \<longrightarrow>
      fst (OrderService_GetOrder w orderID userID) =
        fst (OrderService_GetOrder w2 orderID userID) \<and>
      fst (OrderService_GetOrder w orderID userID) =
        (if call_fails w then Inl Failed_to_get_order else Inl Order_not_found) \<and>
      snd (OrderService_GetOrder w orderID userID) = after_call w \<and>
      snd (OrderService_GetOrder w2 orderID userID) = after_call w2)"
proof (intro conjI allI impI)
  fix resp w'
  assume "OrderService_GetOrder w orderID userID = (Inr resp, w')"
  then obtain order product where
    sel: "select_order_of_user (db w) orderID userID = Some (order, product)"
    and resp: "resp = \<lparr>OrderResponse.ID = orderID,
                   OrderResponse.ProductID = product_id order,
                   OrderResponse.ProductName = name product,
                   OrderResponse.Quantity = quantity order,
                   OrderResponse.TotalCents = total_cents order,
                   OrderResponse.Status = status order\<rparr>"
    by (auto simp: OrderService_GetOrder_def Let_def after_call_fields
        split: if_split_asm option.splits)
  from select_order_of_user_Some [OF sel] resp
  show "\<exists>order. orders (db w) orderID = Some order \<and> user_id order = userID \<and>
         OrderResponse.ID resp = orderID \<and>
         OrderResponse.ProductID resp = product_id order \<and>
         OrderResponse.Quantity resp = quantity order \<and>
         OrderResponse.TotalCents resp = total_cents order \<and>
         OrderResponse.Status resp = status order"
    by simp
next
  fix order :: orders_row and w2 :: world
  assume a: "orders (db w) orderID = Some order \<and> user_id order \<noteq> userID \<and>
        orders (db w2) orderID = None \<and> faults w2 = faults w"
  then have n1: "select_order_of_user (db w) orderID userID = None"
    by (simp add: select_order_of_user_other)
  from a have n2: "select_order_of_user (db w2) orderID userID = None"
    by (simp add: select_order_of_user_absent)
  from a have cf: "call_fails w2 = call_fails w" by (simp add: call_fails_def)
  show "fst (OrderService_GetOrder w orderID userID) =
        fst (OrderService_GetOrder w2 orderID userID)"
    using n1 n2 cf by (simp add: OrderService_GetOrder_def Let_def after_call_fields)
  show "fst (OrderService_GetOrder w orderID userID) =
        (if call_fails w then Inl Failed_to_get_order else Inl Order_not_found)"
    using n1 by (simp add: OrderService_GetOrder_def Let_def after_call_fields)
  show "snd (OrderService_GetOrder w orderID userID) = after_call w"
    by (rule GetOrder_world)
  show "snd (OrderService_GetOrder w2 orderID userID) = after_call w2"
    by (rule GetOrder_world)
qed

text \<open>
  The theorem on the store with order 1 of user 7: user 7 reads it, user 8 gets the
  answer given for an order that does not exist.
\<close>

theorem C9_other_user:
  "fst (OrderService_GetOrder (store_with_order ''pending'') 1 7) =
     Inr \<lparr>OrderResponse.ID = 1, OrderResponse.ProductID = 1,
          OrderResponse.ProductName = ''Go Programming Book'',
          OrderResponse.Quantity = 2, OrderResponse.TotalCents = 5998,
          OrderResponse.Status = ''pending''\<rparr> \<and>
   fst (OrderService_GetOrder (store_with_order ''pending'') 1 8) = Inl Order_not_found \<and>
   fst (OrderService_GetOrder (store 48) 1 8) = Inl Order_not_found"
proof -
  let ?w = "store_with_order ''pending''"
  let ?order = "\<lparr>user_id = 7, product_id = 1, quantity = 2, total_cents = 5998,
                  status = ''pending''\<rparr>"
  have a: "orders (db ?w) 1 = Some ?order \<and> user_id ?order \<noteq> 8 \<and>
        orders (db (store 48)) 1 = None \<and> faults (store 48) = faults ?w"
    by (simp add: store_with_order_def store_def)
  have nf: "\<not> call_fails ?w" by (simp add: call_fails_def store_with_order_def)
  from C9_GetOrder_scoped [of ?w 1 8] a nf
  have "fst (OrderService_GetOrder ?w 1 8) = fst (OrderService_GetOrder (store 48) 1 8)"
    and "fst (OrderService_GetOrder ?w 1 8) = Inl Order_not_found"
    by (metis (full_types))+
  moreover have "fst (OrderService_GetOrder ?w 1 7) =
     Inr \<lparr>OrderResponse.ID = 1, OrderResponse.ProductID = 1,
          OrderResponse.ProductName = ''Go Programming Book'',
          OrderResponse.Quantity = 2, OrderResponse.TotalCents = 5998,
          OrderResponse.Status = ''pending''\<rparr>"
    by (simp add: eval_defs OrderService_GetOrder_def select_order_of_user_def
        store_with_order_def)
  ultimately show ?thesis by simp
qed

subsection \<open>Changing the status of an order\<close>

text \<open>
  The table of orders after \<^verbatim>\<open>OrderService.UpdateOrderStatus\<close> and after
  \<^verbatim>\<open>handlePaymentConfirmed\<close>: the \<^verbatim>\<open>UPDATE\<close> is applied as soon as the driver runs it,
  whatever the calls after it do.
\<close>

lemma UpdateOrderStatus_orders:
  "orders (db (snd (OrderService_UpdateOrderStatus w orderID st))) =
     (if call_fails w then orders (db w) else update_status (orders (db w)) orderID st)"
  by (simp add: OrderService_UpdateOrderStatus_def Let_def world_fields Client_Publish_def
      split: option.splits prod.splits)

lemma UpdateOrderStatus_no_error:
  assumes "fst (OrderService_UpdateOrderStatus w orderID st) = None"
  shows "\<not> call_fails w \<and> (\<exists>order. orders (db w) orderID = Some order)"
  using assms
  by (auto simp: OrderService_UpdateOrderStatus_def Let_def world_fields Client_Publish_def
      update_status_RowsAffected_def split: option.splits prod.splits if_split_asm)

lemma handlePaymentConfirmed_orders:
  "orders (db (Handlers_handlePaymentConfirmed w msg)) =
     (case msg of
        None \<Rightarrow> orders (db w)
      | Some payment \<Rightarrow>
          if call_fails w then orders (db w)
          else update_status (orders (db w)) (OrderID payment) ''paid'')"
proof (cases msg)
  case None
  then show ?thesis by (simp add: Handlers_handlePaymentConfirmed_def Let_def world_fields)
next
  case (Some payment)
  have "orders (db (snd (OrderService_UpdateOrderStatus (Printf w Received_payment_confirmation)
            (OrderID payment) ''paid''))) =
        (if call_fails w then orders (db w)
         else update_status (orders (db w)) (OrderID payment) ''paid'')"
    by (simp add: UpdateOrderStatus_orders call_fails_simps world_fields)
  with Some show ?thesis
    by (auto simp: Handlers_handlePaymentConfirmed_def Let_def world_fields
        split: prod.splits option.splits)
qed

text \<open>
  Claim C10. For every \<^verbatim>\<open>payment/confirmed\<close> message that decodes, the handler does
  the same whatever the \<^verbatim>\<open>status\<close> field of the payload holds, and when the order
  exists and the driver runs the \<^verbatim>\<open>UPDATE\<close>, the status stored for the order is
  \<^verbatim>\<open>paid\<close>.
\<close>

theorem C10_payload_status_ignored:
  "Handlers_handlePaymentConfirmed w (Some (payment\<lparr>payment_confirmation.Status := st\<rparr>)) =
     Handlers_handlePaymentConfirmed w (Some payment) \<and>
   (\<forall>order. orders (db w) (OrderID payment) = Some order \<and> \<not> call_fails w \<longrightarrow>
      orders (db (Handlers_handlePaymentConfirmed w (Some payment))) (OrderID payment) =
        Some (order\<lparr>status := ''paid''\<rparr>))"
proof (intro conjI allI impI)
  show "Handlers_handlePaymentConfirmed w (Some (payment\<lparr>payment_confirmation.Status := st\<rparr>)) =
     Handlers_handlePaymentConfirmed w (Some payment)"
    by (simp add: Handlers_handlePaymentConfirmed_def Let_def split: prod.splits option.splits)
next
  fix order :: orders_row
  assume "orders (db w) (OrderID payment) = Some order \<and> \<not> call_fails w"
  then show "orders (db (Handlers_handlePaymentConfirmed w (Some payment))) (OrderID payment) =
        Some (order\<lparr>status := ''paid''\<rparr>)"
    by (simp add: handlePaymentConfirmed_orders update_status_def)
qed

text \<open>The theorem on a pending order and a payload whose status is \<^verbatim>\<open>refunded\<close>.\<close>

theorem C10_status_refunded:
  "orders (db (Handlers_handlePaymentConfirmed (store_with_order ''pending'')
                 (Some \<lparr>OrderID = 1, payment_confirmation.Status = ''refunded''\<rparr>))) 1 =
     Some \<lparr>user_id = 7, product_id = 1, quantity = 2, total_cents = 5998, status = ''paid''\<rparr> \<and>
   Handlers_handlePaymentConfirmed (store_with_order ''pending'')
       (Some \<lparr>OrderID = 1, payment_confirmation.Status = ''refunded''\<rparr>) =
     Handlers_handlePaymentConfirmed (store_with_order ''pending'')
       (Some \<lparr>OrderID = 1, payment_confirmation.Status = ''confirmed''\<rparr>)"
proof -
  let ?w = "store_with_order ''pending''"
  let ?p = "\<lparr>OrderID = 1, payment_confirmation.Status = ''refunded''\<rparr>"
  let ?order = "\<lparr>user_id = 7, product_id = 1, quantity = 2, total_cents = 5998,
                  status = ''pending''\<rparr>"
  have a: "orders (db ?w) (OrderID ?p) = Some ?order \<and> \<not> call_fails ?w"
    by (simp add: store_with_order_def call_fails_def)
  from C10_payload_status_ignored [where w = ?w and payment = ?p and st = "''confirmed''"] a
  have "orders (db (Handlers_handlePaymentConfirmed ?w (Some ?p))) (OrderID ?p) =
          Some (?order\<lparr>status := ''paid''\<rparr>)"
    and "Handlers_handlePaymentConfirmed ?w
           (Some (?p\<lparr>payment_confirmation.Status := ''confirmed''\<rparr>)) =
         Handlers_handlePaymentConfirmed ?w (Some ?p)"
    by blast+
  then show ?thesis by simp
qed

text \<open>
  Claim C4, as stated, fails on \<^verbatim>\<open>OrderService.UpdateOrderStatus\<close>: it checks no
  transition, and moves order 1 from \<^verbatim>\<open>paid\<close> back to \<^verbatim>\<open>pending\<close> without an error.
\<close>

theorem C4_paid_back_to_pending:
  "orders (db (store_with_order ''paid'')) 1 =
     Some \<lparr>user_id = 7, product_id = 1, quantity = 2, total_cents = 5998, status = ''paid''\<rparr> \<and>
   fst (OrderService_UpdateOrderStatus (store_with_order ''paid'') 1 ''pending'') = None \<and>
   orders (db (snd (OrderService_UpdateOrderStatus (store_with_order ''paid'') 1 ''pending''))) 1 =
     Some \<lparr>user_id = 7, product_id = 1, quantity = 2, total_cents = 5998,
           status = ''pending''\<rparr>"
  by (simp add: eval_defs OrderService_UpdateOrderStatus_def update_status_def
      update_status_RowsAffected_def store_with_order_def)

text \<open>
  Claim C4, amended. Whenever \<^verbatim>\<open>UpdateOrderStatus\<close> returns no error, the order
  existed and its status is now the status passed in, whatever it was before. Its only
  caller, \<^verbatim>\<open>handlePaymentConfirmed\<close>, passes \<^verbatim>\<open>paid\<close>: a message delivered leaves
  an order that is paid as it is, and every order is afterwards either as it was or as
  it was with the status \<^verbatim>\<open>paid\<close>. So no delivery moves a paid order back to
  \<^verbatim>\<open>pending\<close>.
\<close>

theorem C4_status_overwritten:
  "(fst (OrderService_UpdateOrderStatus w orderID st) = None \<longrightarrow>
      (\<exists>order. orders (db w) orderID = Some order \<and>
         orders (db (snd (OrderService_UpdateOrderStatus w orderID st))) orderID =
           Some (order\<lparr>status := st\<rparr>))) \<and>
   (\<forall>order. orders (db w) key = Some order \<and> status order = ''paid'' \<longrightarrow>
      orders (db (Handlers_handlePaymentConfirmed w msg)) key = Some order) \<and>
   (\<forall>order'. orders (db (Handlers_handlePaymentConfirmed w msg)) key = Some order' \<longrightarrow>
      (\<exists>order. orders (db w) key = Some order \<and>
         (order' = order \<or> order' = order\<lparr>status := ''paid''\<rparr>)))"
proof (intro conjI allI impI)
  assume a: "fst (OrderService_UpdateOrderStatus w orderID st) = None"
  from UpdateOrderStatus_no_error [OF a] obtain order where
    "\<not> call_fails w" and "orders (db w) orderID = Some order" by blast
  then show "\<exists>order. orders (db w) orderID = Some order \<and>
         orders (db (snd (OrderService_UpdateOrderStatus w orderID st))) orderID =
           Some (order\<lparr>status := st\<rparr>)"
    by (simp add: UpdateOrderStatus_orders update_status_def)
next
  fix order :: orders_row
  assume "orders (db w) key = Some order \<and> status order = ''paid''"
  then show "orders (db (Handlers_handlePaymentConfirmed w msg)) key = Some order"
    by (auto simp: handlePaymentConfirmed_orders update_status_def split: option.splits)
next
  fix order' :: orders_row
  assume "orders (db (Handlers_handlePaymentConfirmed w msg)) key = Some order'"
  then show "\<exists>order. orders (db w) key = Some order \<and>
         (order' = order \<or> order' = order\<lparr>status := ''paid''\<rparr>)"
    by (auto simp: handlePaymentConfirmed_orders update_status_def
        split: option.splits if_split_asm)
qed

text \<open>
  The amended claim on the store with order 1 paid: \<^verbatim>\<open>UpdateOrderStatus\<close> moves it to
  \<^verbatim>\<open>shipped\<close>, and a payment message leaves it paid.
\<close>

theorem C4_paid_stays_paid:
  "fst (OrderService_UpdateOrderStatus (store_with_order ''paid'') 1 ''shipped'') = None \<and>
   orders (db (snd (OrderService_UpdateOrderStatus (store_with_order ''paid'') 1 ''shipped''))) 1 =
     Some \<lparr>user_id = 7, product_id = 1, quantity = 2, total_cents = 5998,
           status = ''shipped''\<rparr> \<and>
   orders (db (Handlers_handlePaymentConfirmed (store_with_order ''paid'')
                 (Some \<lparr>OrderID = 1, payment_confirmation.Status = ''pending''\<rparr>))) 1 =
     Some \<lparr>user_id = 7, product_id = 1, quantity = 2, total_cents = 5998, status = ''paid''\<rparr>"
proof -
  let ?w = "store_with_order ''paid''"
  let ?msg = "Some \<lparr>OrderID = 1, payment_confirmation.Status = ''pending''\<rparr>"
  let ?order = "\<lparr>user_id = 7, product_id = 1, quantity = 2, total_cents = 5998,
                  status = ''paid''\<rparr>"
  have ok: "fst (OrderService_UpdateOrderStatus ?w 1 ''shipped'') = None"
    by (simp add: eval_defs OrderService_UpdateOrderStatus_def update_status_def
        update_status_RowsAffected_def store_with_order_def)
  have o: "orders (db ?w) 1 = Some ?order \<and> status ?order = ''paid''"
    by (simp add: store_with_order_def)
  from C4_status_overwritten
    [where w = ?w and orderID = 1 and st = "''shipped''" and key = 1 and msg = ?msg] ok o
  have "\<exists>order. orders (db ?w) 1 = Some order \<and>
         orders (db (snd (OrderService_UpdateOrderStatus ?w 1 ''shipped''))) 1 =
           Some (order\<lparr>status := ''shipped''\<rparr>)"
    and "orders (db (Handlers_handlePaymentConfirmed ?w ?msg)) 1 = Some ?order"
    by blast+
  with o ok show ?thesis by auto
qed

subsection \<open>The quantity of a request\<close>

text \<open>
  Claim C8, as stated, fails on \<^verbatim>\<open>OrderService.CreateOrder\<close>, which does not look at
  the sign of the quantity: with quantity -1 it creates an order with total -2999 and
  raises the stock from 50 to 51, with quantity 0 it creates an order with total 0.
\<close>

theorem C8_service_accepts_nonpositive_quantity:
  "fst (OrderService_CreateOrder (store 50) 7 \<lparr>OrderRequest.ProductID = 1, Quantity = - 1\<rparr>) =
     Inr \<lparr>OrderResponse.ID = 1, OrderResponse.ProductID = 1,
          OrderResponse.ProductName = ''Go Programming Book'',
          OrderResponse.Quantity = - 1, OrderResponse.TotalCents = - 2999,
          OrderResponse.Status = ''pending''\<rparr> \<and>
   orders (db (snd (OrderService_CreateOrder (store 50) 7
                      \<lparr>OrderRequest.ProductID = 1, Quantity = - 1\<rparr>))) 1 =
     Some \<lparr>user_id = 7, product_id = 1, quantity = - 1, total_cents = - 2999,
           status = ''pending''\<rparr> \<and>
   map_option stock_quantity
     (products (db (snd (OrderService_CreateOrder (store 50) 7
                           \<lparr>OrderRequest.ProductID = 1, Quantity = - 1\<rparr>))) 1) = Some 51 \<and>
   fst (OrderService_CreateOrder (store 50) 7 \<lparr>OrderRequest.ProductID = 1, Quantity = 0\<rparr>) =
     Inr \<lparr>OrderResponse.ID = 1, OrderResponse.ProductID = 1,
          OrderResponse.ProductName = ''Go Programming Book'',
          OrderResponse.Quantity = 0, OrderResponse.TotalCents = 0,
          OrderResponse.Status = ''pending''\<rparr> \<and>
   orders (db (snd (OrderService_CreateOrder (store 50) 7
                      \<lparr>OrderRequest.ProductID = 1, Quantity = 0\<rparr>))) 1 =
     Some \<lparr>user_id = 7, product_id = 1, quantity = 0, total_cents = 0,
           status = ''pending''\<rparr>"
  by (simp add: eval_defs)

text \<open>
  Claim C8, amended. The check is made by the HTTP handler, through the binding tags of
  \<^verbatim>\<open>models.OrderRequest\<close>: for every request whose body decodes with a quantity below
  1, \<^verbatim>\<open>OrderHandler.CreateOrder\<close> answers 400 with the binding error (401 when the
  context holds no user id), does not call the service and leaves the world as it is.
\<close>

theorem C8_handler_rejects_nonpositive_quantity:
  assumes "json_body c = Some req" and "\<not> 1 \<le>s OrderRequest.Quantity req"
  shows "snd (OrderHandler_CreateOrder w c) = w \<and>
     fst (OrderHandler_CreateOrder w c) =
       (case user_id_value c of
          None \<Rightarrow> (StatusUnauthorized, User_not_authenticated)
        | Some userID \<Rightarrow> (StatusBadRequest, Binding_error))"
  using assms
  by (simp add: OrderHandler_CreateOrder_def ShouldBindJSON_def binding_OrderRequest_def
      getUserIDFromContext_def split: option.splits)

text \<open>The amended claim for user 7 and the quantities 0 and -1.\<close>

theorem C8_handler_quantity_zero:
  "OrderHandler_CreateOrder (store 50)
      \<lparr>user_id_value = Some 7,
       json_body = Some \<lparr>OrderRequest.ProductID = 1, Quantity = 0\<rparr>\<rparr> =
     ((400, Binding_error), store 50) \<and>
   OrderHandler_CreateOrder (store 50)
      \<lparr>user_id_value = Some 7,
       json_body = Some \<lparr>OrderRequest.ProductID = 1, Quantity = - 1\<rparr>\<rparr> =
     ((400, Binding_error), store 50)"
proof -
  let ?c0 = "\<lparr>user_id_value = Some 7,
       json_body = Some \<lparr>OrderRequest.ProductID = 1, Quantity = 0\<rparr>\<rparr>"
  let ?c1 = "\<lparr>user_id_value = Some 7,
       json_body = Some \<lparr>OrderRequest.ProductID = 1, Quantity = - 1\<rparr>\<rparr>"
  have q0: "\<not> 1 \<le>s OrderRequest.Quantity \<lparr>OrderRequest.ProductID = 1, Quantity = 0\<rparr>"
    by (simp add: word_sle_eq)
  have q1: "\<not> 1 \<le>s OrderRequest.Quantity \<lparr>OrderRequest.ProductID = 1, Quantity = - 1\<rparr>"
    by (simp add: word_sle_eq)
  have b0: "json_body ?c0 = Some \<lparr>OrderRequest.ProductID = 1, Quantity = 0\<rparr>" by simp
  have b1: "json_body ?c1 = Some \<lparr>OrderRequest.ProductID = 1, Quantity = - 1\<rparr>" by simp
  from C8_handler_rejects_nonpositive_quantity [OF b0 q0, of "store 50"]
       C8_handler_rejects_nonpositive_quantity [OF b1 q1, of "store 50"]
  show ?thesis
    by (simp add: StatusBadRequest_def prod_eq_iff)
qed

subsection \<open>Stock below zero\<close>

text \<open>
  Claim C1 fails on the code. \<^verbatim>\<open>ProductService.UpdateStock\<close> stores the stock it is
  given without a check, while the HTTP path bounds it (\<^verbatim>\<open>binding:"required,min=0"\<close>
  on \<^verbatim>\<open>ProductRequest.StockQuantity\<close>, with the comment that stock cannot be
  negative): the message \<^verbatim>\<open>inventory/update\<close> with \<^verbatim>\<open>{"product_id": 1, "new_stock": -5}\<close>
  leaves product 1 with a stock of -5, is reported as a success, and a low-stock alert
  with that stock is published.
\<close>

theorem C1_negative_stock:
  "map_option stock_quantity
     (products (db (Handlers_handleInventoryUpdate (store 50)
                      (Some \<lparr>inventory_update.ProductID = 1, NewStock = - 5\<rparr>))) 1) = Some (- 5) \<and>
   (- 5 :: go_int) <s 0 \<and>
   fst (ProductService_UpdateStock (store 50) 1 (- 5)) = None \<and>
   logged (Handlers_handleInventoryUpdate (store 50)
             (Some \<lparr>inventory_update.ProductID = 1, NewStock = - 5\<rparr>)) =
     [Received_inventory_update,
      Published_message_to_topic ''inventory/low_stock''
        (LowStockAlert 1 ''Go Programming Book'' (- 5) 10),
      Updated_stock_for_product 1 (- 5)]"
  by (simp add: eval_defs Handlers_handleInventoryUpdate_def ProductService_UpdateStock_def
      ProductService_GetProduct_def)

subsection \<open>A payment confirmed twice\<close>

text \<open>
  \<^verbatim>\<open>UpdateOrderStatus\<close> takes zero rows affected to mean that the order does not
  exist. With the DSN of the source the driver counts the rows changed, so an
  \<^verbatim>\<open>UPDATE\<close> that sets the status an existing order already has is answered with the
  error for an order not found; with \<^verbatim>\<open>clientFoundRows\<close> it would not be.
\<close>

lemma UpdateOrderStatus_same_status:
  assumes "\<not> clientFoundRows (db w)" and "orders (db w) orderID = Some order"
    and "status order = st" and "faults w = []"
  shows "fst (OrderService_UpdateOrderStatus w orderID st) = Some Order_not_found"
  using assms
  by (simp add: OrderService_UpdateOrderStatus_def Let_def world_fields call_fails_def
      update_status_RowsAffected_def after_call_def)

lemma UpdateOrderStatus_found_rows:
  assumes "clientFoundRows (db w)" and "orders (db w) orderID = Some order"
    and "faults w = []"
  shows "fst (OrderService_UpdateOrderStatus w orderID st) = None"
  using assms
  by (simp add: OrderService_UpdateOrderStatus_def Let_def world_fields call_fails_def
      update_status_RowsAffected_def after_call_def Client_Publish_def Printf_def
      split: prod.splits option.splits)

text \<open>
  Claim C3 fails on the code. Two deliveries of \<^verbatim>\<open>payment/confirmed\<close> for order 1
  leave the order paid, but the second one is reported as an error: the handler logs
  that it failed to update the order status because the order was not found, and
  publishes no event.
\<close>

theorem C3_second_delivery_reports_error:
  "orders (db (Handlers_handlePaymentConfirmed
                 (Handlers_handlePaymentConfirmed (store_with_order ''pending'')
                    (Some \<lparr>OrderID = 1, payment_confirmation.Status = ''confirmed''\<rparr>))
                 (Some \<lparr>OrderID = 1, payment_confirmation.Status = ''confirmed''\<rparr>))) 1 =
     Some \<lparr>user_id = 7, product_id = 1, quantity = 2, total_cents = 5998, status = ''paid''\<rparr> \<and>
   logged (Handlers_handlePaymentConfirmed
             (Handlers_handlePaymentConfirmed (store_with_order ''pending'')
                (Some \<lparr>OrderID = 1, payment_confirmation.Status = ''confirmed''\<rparr>))
             (Some \<lparr>OrderID = 1, payment_confirmation.Status = ''confirmed''\<rparr>)) =
     [Received_payment_confirmation,
      Published_message_to_topic ''order/status_changed'' (OrderStatusChanged 1 ''paid''),
      Updated_order_status_to_paid 1,
      Received_payment_confirmation,
      Failed_to_update_order_status_line Order_not_found] \<and>
   published (Handlers_handlePaymentConfirmed
                (Handlers_handlePaymentConfirmed (store_with_order ''pending'')
                   (Some \<lparr>OrderID = 1, payment_confirmation.Status = ''confirmed''\<rparr>))
                (Some \<lparr>OrderID = 1, payment_confirmation.Status = ''confirmed''\<rparr>)) =
     [(''order/status_changed'', OrderStatusChanged 1 ''paid'')] \<and>
   fst (OrderService_UpdateOrderStatus (store_with_order ''paid'') 1 ''paid'') =
     Some Order_not_found"
  by (simp add: eval_defs Handlers_handlePaymentConfirmed_def OrderService_UpdateOrderStatus_def
      update_status_def update_status_RowsAffected_def store_with_order_def)

subsection \<open>What the services do keep\<close>

text \<open>
  \<^verbatim>\<open>OrderService.CreateOrder\<close> by itself keeps the stock at or above zero: it succeeds
  only when the stock covers the quantity, so for a quantity that is not negative the
  stock it stores is not negative, and it touches no other product.
\<close>

lemma sub_nonneg:
  fixes a b :: go_int
  assumes "\<not> a <s b" and "0 \<le>s b"
  shows "0 \<le>s a - b"
proof -
  from assms have le: "sint b \<le> sint a" and b0: "0 \<le> sint b"
    by (simp_all add: word_sless_alt word_sle_eq)
  have "sint a < 2 ^ 63" using sint_lt [of a] by simp
  with le b0 have "- (2 ^ 63) \<le> sint a - sint b" and "sint a - sint b < 2 ^ 63"
    by simp_all
  then have "sint (a - b) = sint a - sint b"
    by (simp add: sint_word_ariths signed_take_bit_int_eq_self)
  with le show ?thesis by (simp add: word_sle_eq)
qed

lemma CreateOrder_stock_nonnegative:
  assumes "OrderService_CreateOrder w userID req = (Inr resp, w')"
    and "0 \<le>s OrderRequest.Quantity req"
  shows "(\<exists>row'. products (db w') (OrderRequest.ProductID req) = Some row' \<and>
            0 \<le>s stock_quantity row') \<and>
         (\<forall>key. key \<noteq> OrderRequest.ProductID req \<longrightarrow>
            products (db w') key = products (db w) key)"
proof -
  from CreateOrder_success [OF assms(1)] obtain row where
    row: "products (db w) (OrderRequest.ProductID req) = Some row"
    and enough: "\<not> stock_quantity row <s OrderRequest.Quantity req"
    and prods: "products (db w') = (products (db w))(OrderRequest.ProductID req \<mapsto>
         row\<lparr>stock_quantity := stock_quantity row - OrderRequest.Quantity req\<rparr>)"
    by blast
  from sub_nonneg [OF enough assms(2)] prods show ?thesis by simp
qed

text \<open>
  Two calls of \<^verbatim>\<open>CreateOrder\<close> for the last unit of a product, one after the other:
  the first creates order 1, the second fails with insufficient stock, and the stock
  ends at 0 with one order stored.
\<close>

lemma last_unit_one_call_after_the_other:
  "fst (OrderService_CreateOrder (store 1) 7 \<lparr>OrderRequest.ProductID = 1, Quantity = 1\<rparr>) =
     Inr \<lparr>OrderResponse.ID = 1, OrderResponse.ProductID = 1,
          OrderResponse.ProductName = ''Go Programming Book'',
          OrderResponse.Quantity = 1, OrderResponse.TotalCents = 2999,
          OrderResponse.Status = ''pending''\<rparr> \<and>
   fst (OrderService_CreateOrder
          (snd (OrderService_CreateOrder (store 1) 7
                  \<lparr>OrderRequest.ProductID = 1, Quantity = 1\<rparr>))
          8 \<lparr>OrderRequest.ProductID = 1, Quantity = 1\<rparr>) = Inl (Insufficient_stock 0) \<and>
   map_option stock_quantity
     (products (db (snd (OrderService_CreateOrder
          (snd (OrderService_CreateOrder (store 1) 7
                  \<lparr>OrderRequest.ProductID = 1, Quantity = 1\<rparr>))
          8 \<lparr>OrderRequest.ProductID = 1, Quantity = 1\<rparr>))) 1) = Some 0 \<and>
   dom (orders (db (snd (OrderService_CreateOrder
          (snd (OrderService_CreateOrder (store 1) 7
                  \<lparr>OrderRequest.ProductID = 1, Quantity = 1\<rparr>))
          8 \<lparr>OrderRequest.ProductID = 1, Quantity = 1\<rparr>)))) = {1}"
  by (simp add: eval_defs)

text \<open>
  A \<^verbatim>\<open>payment/confirmed\<close> message for an order that does not exist (scenario D of the
  specification) changes no table and publishes nothing.
\<close>

lemma payment_for_unknown_order:
  assumes "orders (db w) (OrderID payment) = None"
  shows "orders (db (Handlers_handlePaymentConfirmed w (Some payment))) = orders (db w) \<and>
     products (db (Handlers_handlePaymentConfirmed w (Some payment))) = products (db w) \<and>
     published (Handlers_handlePaymentConfirmed w (Some payment)) = published w"
  using assms
  by (simp add: Handlers_handlePaymentConfirmed_def OrderService_UpdateOrderStatus_def Let_def
      world_fields call_fails_simps update_status_def update_status_RowsAffected_def)

end
